theory Spec2Isabelle
  imports Main "HOL-Library.Word" "HOL-Library.Finite_Map"
begin

section \<open>Data model of \<^verbatim>\<open>im/client/client_manager.go\<close>\<close>

text \<open>
  Identifiers and counters are Go \<^verbatim>\<open>int64\<close> values: 64-bit words, read as two's
  complement by \<open>sint\<close>; \<open>+\<close> and \<open>-\<close> wrap around as \<^verbatim>\<open>atomic.AddInt64\<close> does.
  An \<^verbatim>\<open>IClient\<close> value is a reference to an object: two slots holding the same
  reference hold the same session, and a call on it is seen through both.
\<close>

type_synonym int64 = "64 word"
type_synonym iclient = nat
type_synonym connection = nat

datatype action = ActionNotifyKickOut | ActionNotifyAccountLogin | ActionOther string

datatype message = NewMessage int64 action string

datatype error = ErrClientClosed | ErrClientNotExist | ErrOther string

datatype fault = NilDereference

text \<open>
  Modelled from the spec: the \<^verbatim>\<open>IClient\<close> implementation (package \<^verbatim>\<open>client\<close>, not in the
  sources). A session has a mutable identity (\<^verbatim>\<open>SetID\<close>), a dispatch loop started by
  \<^verbatim>\<open>Run\<close>, a termination request (\<^verbatim>\<open>Exit\<close>), a closed flag reported by \<^verbatim>\<open>Closed\<close>,
  and accepts outbound messages (\<^verbatim>\<open>EnqueueMessage\<close>), answering with an error or nil.
  The fields record what the manager did to the object (\<open>c_queue\<close> holds every message
  handed to \<^verbatim>\<open>EnqueueMessage\<close>, in order) and what the object answers (\<open>c_closed\<close>,
  \<open>c_reply\<close>).
\<close>

record client =
  c_conn :: connection
  c_uid :: int64
  c_device :: int64
  c_running :: bool
  c_exited :: bool
  c_closed :: bool
  c_reply :: "error option"
  c_queue :: "message list"

type_synonym devices = "(int64, iclient) fmap"

text \<open>
  The first five fields are \<^verbatim>\<open>DefaultClientManager\<close> (with \<^verbatim>\<open>clients.clients\<close> inlined:
  the lock has no sequential content). The others are the collaborators' state: the
  objects the \<^verbatim>\<open>IClient\<close> references point to, the allocator of \<^verbatim>\<open>newClient\<close>, the
  identifiers \<^verbatim>\<open>uid.GenTemp\<close> hands out (the n-th call returns \<open>temp_ids n\<close>) and the
  connection counter of package \<^verbatim>\<open>statistics\<close>.
\<close>

record state =
  clients :: "(int64, devices) fmap"
  clientOnline :: int64
  messageSent :: int64
  maxOnline :: int64
  startAt :: int64
  heap :: "iclient \<Rightarrow> client"
  next_client :: iclient
  temp_ids :: "nat \<Rightarrow> int64"
  temp_n :: nat
  conn_stat :: int

definition NewDefaultManager :: "int64 \<Rightarrow> state \<Rightarrow> state" where
  "NewDefaultManager now st =
     st\<lparr>clients := fmempty, clientOnline := 0, messageSent := 0, maxOnline := 0, startAt := now\<rparr>"

section \<open>Collaborators\<close>

text \<open>Modelled from the spec: \<^verbatim>\<open>uid.GenTemp\<close> issues the next temporary identifier.\<close>

definition GenTemp :: "state \<Rightarrow> int64 \<times> state" where
  "GenTemp st = (temp_ids st (temp_n st), st\<lparr>temp_n := Suc (temp_n st)\<rparr>)"

text \<open>Modelled from the spec: \<^verbatim>\<open>newClient\<close> builds a new session around the connection.\<close>

definition newClient :: "connection \<Rightarrow> state \<Rightarrow> iclient \<times> state" where
  "newClient conn st =
     (next_client st,
      st\<lparr>heap := (heap st)(next_client st :=
             \<lparr>c_conn = conn, c_uid = 0, c_device = 0, c_running = False, c_exited = False,
              c_closed = False, c_reply = None, c_queue = []\<rparr>),
         next_client := Suc (next_client st)\<rparr>)"

definition SetID :: "iclient \<Rightarrow> int64 \<Rightarrow> int64 \<Rightarrow> state \<Rightarrow> state" where
  "SetID c uid device st =
     st\<lparr>heap := (heap st)(c := (heap st c)\<lparr>c_uid := uid, c_device := device\<rparr>)\<rparr>"

definition Run :: "iclient \<Rightarrow> state \<Rightarrow> state" where
  "Run c st = st\<lparr>heap := (heap st)(c := (heap st c)\<lparr>c_running := True\<rparr>)\<rparr>"

definition Exit :: "iclient \<Rightarrow> state \<Rightarrow> state" where
  "Exit c st = st\<lparr>heap := (heap st)(c := (heap st c)\<lparr>c_exited := True\<rparr>)\<rparr>"

definition Closed :: "iclient \<Rightarrow> state \<Rightarrow> bool" where
  "Closed c st = c_closed (heap st c)"

definition client_EnqueueMessage :: "iclient \<Rightarrow> message \<Rightarrow> state \<Rightarrow> error option \<times> state" where
  "client_EnqueueMessage c msg st =
     (c_reply (heap st c),
      st\<lparr>heap := (heap st)(c := (heap st c)\<lparr>c_queue := c_queue (heap st c) @ [msg]\<rparr>)\<rparr>)"

text \<open>Modelled from the spec: the counters of package \<^verbatim>\<open>statistics\<close>.\<close>

definition SConnEnter :: "state \<Rightarrow> state" where
  "SConnEnter st = st\<lparr>conn_stat := conn_stat st + 1\<rparr>"

definition SConnExit :: "state \<Rightarrow> state" where
  "SConnExit st = st\<lparr>conn_stat := conn_stat st - 1\<rparr>"

text \<open>\<^verbatim>\<open>strconv.FormatInt(i, 10)\<close>.\<close>

fun decimal :: "nat \<Rightarrow> string" where
  "decimal n = (if n < 10 then [char_of (48 + n)]
                else decimal (n div 10) @ [char_of (48 + n mod 10)])"

definition FormatInt :: "int64 \<Rightarrow> string" where
  "FormatInt i = (if sint i < 0 then CHR ''-'' # decimal (nat (- sint i)) else decimal (nat (sint i)))"

section \<open>\<^verbatim>\<open>devices\<close> and \<^verbatim>\<open>clients\<close>\<close>

definition devices_put :: "int64 \<Rightarrow> iclient \<Rightarrow> devices \<Rightarrow> devices" where
  "devices_put device cli d = fmupd device cli d"

definition devices_get :: "devices \<Rightarrow> int64 \<Rightarrow> iclient option" where
  "devices_get d device = fmlookup d device"

definition devices_remove :: "int64 \<Rightarrow> devices \<Rightarrow> devices" where
  "devices_remove device d = fmdrop device d"

definition devices_size :: "devices \<Rightarrow> nat" where
  "devices_size d = fcard (fmdom d)"

text \<open>
  \<^verbatim>\<open>for k, v := range d.ds\<close> visits every key once, in an order Go leaves open.
  The order is the argument \<open>ks\<close>; \<open>range_order ks d\<close> says that \<open>ks\<close> is such an order.
\<close>

definition range_order :: "int64 list \<Rightarrow> devices \<Rightarrow> bool" where
  "range_order ks d \<longleftrightarrow> distinct ks \<and> fset_of_list ks = fmdom d"

definition devices_foreach ::
  "int64 list \<Rightarrow> devices \<Rightarrow> (int64 \<Rightarrow> iclient \<Rightarrow> 'a \<Rightarrow> 'a) \<Rightarrow> 'a \<Rightarrow> 'a" where
  "devices_foreach ks d f a =
     fold (\<lambda>k a. case fmlookup d k of Some v \<Rightarrow> f k v a | None \<Rightarrow> a) ks a"

definition clients_size :: "state \<Rightarrow> nat" where
  "clients_size st = fcard (fmdom (clients st))"

definition clients_get :: "state \<Rightarrow> int64 \<Rightarrow> devices option" where
  "clients_get st uid =
     (case fmlookup (clients st) uid of
        Some cl \<Rightarrow> if devices_size cl \<noteq> 0 then Some cl else None
      | None \<Rightarrow> None)"

definition clients_contains :: "state \<Rightarrow> int64 \<Rightarrow> bool" where
  "clients_contains st uid = (fmlookup (clients st) uid \<noteq> None)"

definition clients_add :: "int64 \<Rightarrow> int64 \<Rightarrow> iclient \<Rightarrow> state \<Rightarrow> state" where
  "clients_add uid device c st =
     (case fmlookup (clients st) uid of
        Some cs \<Rightarrow> st\<lparr>clients := fmupd uid (devices_put device c cs) (clients st)\<rparr>
      | None \<Rightarrow> st\<lparr>clients := fmupd uid (devices_put device c fmempty) (clients st)\<rparr>)"

definition clients_delete :: "int64 \<Rightarrow> int64 \<Rightarrow> state \<Rightarrow> state" where
  "clients_delete uid device st =
     (case fmlookup (clients st) uid of
        Some d \<Rightarrow>
          (let d' = devices_remove device d
           in if devices_size d' = 0 then st\<lparr>clients := fmdrop uid (clients st)\<rparr>
              else st\<lparr>clients := fmupd uid d' (clients st)\<rparr>)
      | None \<Rightarrow> st)"

text \<open>
  \<^verbatim>\<open>clients.get\<close> returns a pointer to the \<^verbatim>\<open>devices\<close> object stored under \<open>uid\<close>, and
  the manager then calls \<^verbatim>\<open>put\<close> and \<^verbatim>\<open>remove\<close> through that pointer. The object stays
  under its key for as long as the manager holds the pointer, so a call through the
  pointer is an update of the entry under \<open>uid\<close>: two pointers got for the same \<open>uid\<close>
  are the same object.
\<close>

definition at_devices :: "int64 \<Rightarrow> (devices \<Rightarrow> devices) \<Rightarrow> state \<Rightarrow> state" where
  "at_devices uid f st =
     (case fmlookup (clients st) uid of
        Some d \<Rightarrow> st\<lparr>clients := fmupd uid (f d) (clients st)\<rparr>
      | None \<Rightarrow> st)"

text \<open>The session in slot \<open>(uid, device)\<close> of the registry, if any.\<close>

definition slot :: "state \<Rightarrow> int64 \<Rightarrow> int64 \<Rightarrow> iclient option" where
  "slot st uid device =
     (case fmlookup (clients st) uid of Some d \<Rightarrow> fmlookup d device | None \<Rightarrow> None)"

section \<open>\<^verbatim>\<open>DefaultClientManager\<close>\<close>

definition ClientConnected :: "connection \<Rightarrow> state \<Rightarrow> int64 \<times> state" where
  "ClientConnected conn st =
     (let st1 = SConnEnter st;
          (connUid, st2) = GenTemp st1;
          (ret, st3) = newClient conn st2;
          st4 = SetID ret connUid 0 st3;
          st5 = clients_add connUid 0 ret st4;
          st6 = Run ret st5
      in (connUid, st6))"

text \<open>\<open>cs\<close> is a session object, not nil.\<close>

definition AddClient :: "int64 \<Rightarrow> iclient \<Rightarrow> state \<Rightarrow> state" where
  "AddClient uid cs st =
     (let st1 = clients_add uid 0 cs st
      in st1\<lparr>clientOnline := clientOnline st1 + 1\<rparr>)"

text \<open>The closure passed to \<^verbatim>\<open>foreach\<close> (lines 135 to 146); it captures \<^verbatim>\<open>err\<close>.\<close>

definition deliver ::
  "int64 \<Rightarrow> message \<Rightarrow> int64 \<Rightarrow> iclient \<Rightarrow> error option \<times> state \<Rightarrow> error option \<times> state" where
  "deliver device msg deviceId c a =
     (case a of (err, s) \<Rightarrow>
        if device \<noteq> 0 \<and> deviceId \<noteq> device then (err, s)
        else if Closed c s then (Some ErrClientClosed, s)
        else client_EnqueueMessage c msg s)"

definition EnqueueMessage ::
  "int64 list \<Rightarrow> int64 \<Rightarrow> int64 \<Rightarrow> message \<Rightarrow> state \<Rightarrow> error option \<times> state" where
  "EnqueueMessage ks uid device msg st =
     (let st1 = st\<lparr>messageSent := messageSent st + 1\<rparr>
      in case clients_get st1 uid of
           None \<Rightarrow> (Some ErrClientNotExist, st1)
         | Some ds \<Rightarrow>
             if devices_size ds = 0 then (Some ErrClientNotExist, st1)
             else if device \<noteq> 0 then
               (case devices_get ds device of
                  None \<Rightarrow> (Some ErrClientNotExist, st1)
                | Some d \<Rightarrow> client_EnqueueMessage d msg st1)
             else devices_foreach ks ds (deliver device msg) (None, st1))"

text \<open>
  Modelled from the spec: the package-level \<^verbatim>\<open>EnqueueMessage(uid, msg)\<close> that
  \<^verbatim>\<open>ClientSignIn\<close> calls (not in the sources) sends the message to all the devices the
  user has registered: the manager's \<^verbatim>\<open>EnqueueMessage\<close> with device 0.
\<close>

definition pkg_EnqueueMessage ::
  "int64 list \<Rightarrow> int64 \<Rightarrow> message \<Rightarrow> state \<Rightarrow> error option \<times> state" where
  "pkg_EnqueueMessage ks uid msg st = EnqueueMessage ks uid 0 msg st"

text \<open>The eviction of the session found in the slot (lines 70 to 75).\<close>

definition evict :: "iclient \<Rightarrow> int64 \<Rightarrow> int64 \<Rightarrow> state \<Rightarrow> state" where
  "evict existing uid' device st =
     (let (t, st1) = GenTemp st;
          st2 = SetID existing t 0 st1;
          st3 = snd (client_EnqueueMessage existing
                  (NewMessage 0 ActionNotifyKickOut ''Your account is logged in on another device'') st2);
          st4 = Exit existing st3
      in at_devices uid' (devices_remove device) st4)"

text \<open>The counters, lines 90 to 95; \<^verbatim>\<open>max < current\<close> compares signed values.\<close>

definition count_online :: "state \<Rightarrow> state" where
  "count_online st =
     (let st1 = st\<lparr>clientOnline := clientOnline st + 1\<rparr>;
          max = maxOnline st1;
          current = clientOnline st1
      in if max <s current then st1\<lparr>maxOnline := current\<rparr> else st1)"

text \<open>
  Lines 65 to 85: the session \<open>client\<close> takes the slot \<open>(uid', device)\<close>. \<open>ks\<close> is
  the order in which the notification visits the devices of \<open>uid'\<close>.
\<close>

definition register :: "int64 list \<Rightarrow> int64 \<Rightarrow> int64 \<Rightarrow> iclient \<Rightarrow> state \<Rightarrow> state" where
  "register ks uid' device client st =
     (case clients_get st uid' of
        Some logged \<Rightarrow>
          if devices_size logged > 0 then
            (let sa = (case devices_get logged device of
                         Some existing \<Rightarrow> evict existing uid' device st
                       | None \<Rightarrow> st);
                 sb = (if (case fmlookup (clients sa) uid' of
                             Some l \<Rightarrow> devices_size l > 0 | None \<Rightarrow> False)
                       then snd (pkg_EnqueueMessage ks uid'
                              (NewMessage 0 ActionNotifyAccountLogin
                                 (''multi device login, device='' @ FormatInt device)) sa)
                       else sa)
             in at_devices uid' (devices_put device client) sb)
          else clients_add uid' device client st
      | None \<Rightarrow> clients_add uid' device client st)"

text \<open>
  When the entry under \<open>id'\<close> has no device 0, \<^verbatim>\<open>client\<close> is nil and \<^verbatim>\<open>client.SetID\<close>
  panics; nothing done before it is seen once the process is gone.
\<close>

definition ClientSignIn ::
  "int64 list \<Rightarrow> int64 \<Rightarrow> int64 \<Rightarrow> int64 \<Rightarrow> state \<Rightarrow> fault + (error option \<times> state)" where
  "ClientSignIn ks id' uid' device st =
     (case clients_get st id' of
        None \<Rightarrow> Inr (None, st)
      | Some tempDs \<Rightarrow>
          if devices_size tempDs = 0 then Inr (None, st)
          else
            (case devices_get tempDs 0 of
               None \<Rightarrow> Inl NilDereference
             | Some client \<Rightarrow>
                 (let st1 = register ks uid' device client st;
                      st2 = SetID client uid' device st1;
                      st3 = clients_delete id' 0 st2
                  in Inr (None, count_online st3))))"

definition ClientLogout :: "int64 \<Rightarrow> int64 \<Rightarrow> state \<Rightarrow> error option \<times> state" where
  "ClientLogout uid' device st =
     (case clients_get st uid' of
        None \<Rightarrow> (None, st)
      | Some cl \<Rightarrow>
          if devices_size cl = 0 then (None, st)
          else
            (case devices_get cl device of
               None \<Rightarrow> (None, st)
             | Some logDevice \<Rightarrow>
                 (let (t, st1) = GenTemp st;
                      st2 = SetID logDevice t 0 st1;
                      st3 = Exit logDevice st2;
                      st4 = at_devices uid' (devices_remove device) st3;
                      st5 = st4\<lparr>clientOnline := clientOnline st4 - 1\<rparr>
                  in (None, SConnExit st5))))"

definition isOnline :: "state \<Rightarrow> int64 \<Rightarrow> bool" where
  "isOnline st uid = (case clients_get st uid of None \<Rightarrow> False | Some ds \<Rightarrow> devices_size ds > 0)"

definition isDeviceOnline :: "state \<Rightarrow> int64 \<Rightarrow> int64 \<Rightarrow> bool" where
  "isDeviceOnline st uid device =
     (case clients_get st uid of None \<Rightarrow> False | Some ds \<Rightarrow> devices_get ds device \<noteq> None)"

section \<open>Traces\<close>

text \<open>
  The operations of the manager called one after the other. A panic ends the trace.
  \<open>peak\<close> is the highest value of the online counter after any prefix of the trace.
\<close>

datatype op =
    OpConnected connection
  | OpAddClient int64 iclient
  | OpSignIn "int64 list" int64 int64 int64
  | OpLogout int64 int64
  | OpEnqueue "int64 list" int64 int64 message

fun apply_op :: "op \<Rightarrow> state \<Rightarrow> fault + state" where
  "apply_op (OpConnected conn) st = Inr (snd (ClientConnected conn st))"
| "apply_op (OpAddClient uid cs) st = Inr (AddClient uid cs st)"
| "apply_op (OpSignIn ks id' uid' device) st =
     (case ClientSignIn ks id' uid' device st of Inl f \<Rightarrow> Inl f | Inr (e, st') \<Rightarrow> Inr st')"
| "apply_op (OpLogout uid' device) st = Inr (snd (ClientLogout uid' device st))"
| "apply_op (OpEnqueue ks uid device msg) st = Inr (snd (EnqueueMessage ks uid device msg st))"

fun run :: "op list \<Rightarrow> state \<Rightarrow> fault + state" where
  "run [] st = Inr st"
| "run (x # xs) st = (case apply_op x st of Inl f \<Rightarrow> Inl f | Inr st' \<Rightarrow> run xs st')"

fun peak :: "op list \<Rightarrow> state \<Rightarrow> int" where
  "peak [] st = sint (clientOnline st)"
| "peak (x # xs) st =
     (case apply_op x st of
        Inl f \<Rightarrow> sint (clientOnline st)
      | Inr st' \<Rightarrow> max (sint (clientOnline st)) (peak xs st'))"

text \<open>
  What the claims count in a trace: a sign-in that found its temporary entry and a direct
  registration add one, a sign-out that found its slot takes one.
\<close>

fun step_count :: "op \<Rightarrow> state \<Rightarrow> int" where
  "step_count (OpSignIn ks id' uid' device) st = (if clients_get st id' \<noteq> None then 1 else 0)"
| "step_count (OpAddClient uid cs) st = 1"
| "step_count (OpLogout uid' device) st = (if slot st uid' device \<noteq> None then - 1 else 0)"
| "step_count (OpConnected conn) st = 0"
| "step_count (OpEnqueue ks uid device msg) st = 0"

fun tally :: "op list \<Rightarrow> state \<Rightarrow> int" where
  "tally [] st = 0"
| "tally (x # xs) st =
     (case apply_op x st of Inl f \<Rightarrow> 0 | Inr st' \<Rightarrow> step_count x st + tally xs st')"

text \<open>Invariant I5 of the registry: no entry is an empty \<^verbatim>\<open>devices\<close>.\<close>

definition no_empty_devices :: "state \<Rightarrow> bool" where
  "no_empty_devices st \<longleftrightarrow> fmempty |\<notin>| fmran (clients st)"

text \<open>
  A world to run the operations in: no session yet, temporary identifiers
  9000, 9001, ... and a manager made by \<^verbatim>\<open>NewDefaultManager\<close>. \<open>disconnect\<close> is the
  transport closing the connection of a session, after which \<^verbatim>\<open>Closed\<close> reports true.
\<close>

definition world :: state where
  "world = NewDefaultManager 0
     \<lparr>clients = fmempty, clientOnline = 0, messageSent = 0, maxOnline = 0, startAt = 0,
      heap = (\<lambda>c. \<lparr>c_conn = 0, c_uid = 0, c_device = 0, c_running = False, c_exited = False,
                    c_closed = False, c_reply = None, c_queue = []\<rparr>),
      next_client = 0, temp_ids = (\<lambda>n. 9000 + of_nat n), temp_n = 0, conn_stat = 0\<rparr>"

definition disconnect :: "iclient \<Rightarrow> state \<Rightarrow> state" where
  "disconnect c st = st\<lparr>heap := (heap st)(c := (heap st c)\<lparr>c_closed := True\<rparr>)\<rparr>"

text \<open>
  States reached by running the manager in \<open>world\<close>: one connection not yet signed in;
  user 5001 signed in on device 1; the same with a second connection waiting; user 5001
  signed in on devices 1 and 2 (sessions 0 and 1). \<open>chat\<close> is a message to deliver.
\<close>

definition connected :: state where
  "connected = snd (ClientConnected 1 world)"

definition one_device :: state where
  "one_device = projr (run [OpConnected 1, OpSignIn [] 9000 5001 1] world)"

definition second_connected :: state where
  "second_connected = projr (run [OpConnected 1, OpSignIn [] 9000 5001 1, OpConnected 2] world)"

definition two_devices :: state where
  "two_devices = projr (run [OpConnected 1, OpSignIn [] 9000 5001 1,
                             OpConnected 2, OpSignIn [1] 9001 5001 2] world)"

definition chat :: message where
  "chat = NewMessage 7 (ActionOther ''chat'') ''hi''"

text \<open>
  \<open>queued st st'\<close>: the two states differ at most in the messages queued at the sessions.
\<close>

definition queued :: "state \<Rightarrow> state \<Rightarrow> bool" where
  "queued st st' \<longleftrightarrow>
     clients st' = clients st \<and> clientOnline st' = clientOnline st \<and>
     messageSent st' = messageSent st \<and> maxOnline st' = maxOnline st \<and>
     startAt st' = startAt st \<and> next_client st' = next_client st \<and>
     temp_ids st' = temp_ids st \<and> temp_n st' = temp_n st \<and> conn_stat st' = conn_stat st \<and>
     (\<forall>c. (heap st' c)\<lparr>c_queue := []\<rparr> = (heap st c)\<lparr>c_queue := []\<rparr>)"

section \<open>Basic facts\<close>

lemmas coll_defs = GenTemp_def newClient_def SetID_def Run_def Exit_def Closed_def
  client_EnqueueMessage_def SConnEnter_def SConnExit_def

lemmas dev_defs = devices_put_def devices_get_def devices_remove_def

lemma devices_size_0: "devices_size d = 0 \<longleftrightarrow> d = fmempty"
proof
  assume "devices_size d = 0"
  then have "fmdom d = {||}" by (simp add: devices_size_def)
  then have "fmlookup d x = None" for x by (metis fmdom_notD fempty_iff)
  then show "d = fmempty" by (intro fmap_ext) simp
qed (simp add: devices_size_def)

lemma devices_size_pos: "0 < devices_size d \<longleftrightarrow> d \<noteq> fmempty"
  using devices_size_0 [of d] by auto

lemma fmupd_not_empty: "fmupd k v m \<noteq> fmempty"
proof
  assume "fmupd k v m = fmempty"
  then have "fmlookup (fmupd k v m) k = fmlookup fmempty k" by simp
  then show False by simp
qed

lemma clients_get_Some:
  "clients_get st u = Some d \<longleftrightarrow> fmlookup (clients st) u = Some d \<and> d \<noteq> fmempty"
  by (auto simp: clients_get_def devices_size_0 split: option.splits)

lemma clients_get_None:
  "clients_get st u = None \<longleftrightarrow> fmlookup (clients st) u = None \<or> fmlookup (clients st) u = Some fmempty"
  by (auto simp: clients_get_def devices_size_0 split: option.splits)

lemma slot_Some:
  "slot st u d = Some c \<longleftrightarrow> (\<exists>D. clients_get st u = Some D \<and> fmlookup D d = Some c)"
  by (auto simp: slot_def clients_get_Some split: option.splits)

lemma queued_refl: "queued st st"
  by (simp add: queued_def)

lemma queued_trans: "queued a b \<Longrightarrow> queued b c \<Longrightarrow> queued a c"
  by (simp add: queued_def)

lemma queued_deliver: "queued st (snd (deliver device msg k c (e, st)))"
  by (simp add: deliver_def queued_def coll_defs)

lemma queued_foreach: "queued st (snd (devices_foreach ks ds (deliver device msg) (e, st)))"
  unfolding devices_foreach_def
proof (induction ks arbitrary: e st)
  case Nil
  show ?case by (simp add: queued_refl)
next
  case (Cons k ks)
  show ?case
  proof (cases "fmlookup ds k")
    case None
    then show ?thesis using Cons.IH by simp
  next
    case (Some c)
    obtain e' st' where d: "deliver device msg k c (e, st) = (e', st')"
      by (cases "deliver device msg k c (e, st)")
    have "queued st st'" using queued_deliver [of st device msg k c e] d by simp
    moreover have "queued st' (snd (fold (\<lambda>k a. case fmlookup ds k of None \<Rightarrow> a | Some v \<Rightarrow> deliver device msg k v a) ks (e', st')))"
      by (rule Cons.IH)
    ultimately show ?thesis using Some d by (simp add: queued_trans [of st st'])
  qed
qed

lemma queued_EnqueueMessage:
  "queued (st\<lparr>messageSent := messageSent st + 1\<rparr>) (snd (EnqueueMessage ks uid device msg st))"
  by (auto simp: EnqueueMessage_def Let_def queued_refl queued_foreach devices_get_def
      split: option.splits)
    (simp add: queued_def coll_defs)

lemma fmupd_fmdrop: "fmupd k v (fmdrop k m) = fmupd k v m"
  by (rule fmap_ext) simp

lemma clients_at_devices:
  "clients (at_devices u f st) =
     (case fmlookup (clients st) u of Some L \<Rightarrow> fmupd u (f L) (clients st) | None \<Rightarrow> clients st)"
  by (simp add: at_devices_def split: option.splits)

lemma clients_evict:
  "clients (evict e u d st) =
     (case fmlookup (clients st) u of Some L \<Rightarrow> fmupd u (fmdrop d L) (clients st) | None \<Rightarrow> clients st)"
  by (simp add: evict_def coll_defs clients_at_devices devices_remove_def split: option.splits)

lemma clients_notify: "clients (snd (pkg_EnqueueMessage ks u msg st)) = clients st"
  using queued_EnqueueMessage [of st ks u 0 msg] by (simp add: pkg_EnqueueMessage_def queued_def)

lemma clients_register:
  "clients (register ks uid' device client st) =
     fmupd uid' (fmupd device client
       (case fmlookup (clients st) uid' of Some L \<Rightarrow> L | None \<Rightarrow> fmempty)) (clients st)"
proof (cases "clients_get st uid'")
  case None
  then have "register ks uid' device client st = clients_add uid' device client st"
    by (simp add: register_def)
  moreover have "fmlookup (clients st) uid' = None \<or> fmlookup (clients st) uid' = Some fmempty"
    using None by (simp add: clients_get_None)
  ultimately show ?thesis
    by (auto simp: clients_add_def devices_put_def)
next
  case (Some logged)
  then have L: "fmlookup (clients st) uid' = Some logged" "logged \<noteq> fmempty"
    by (simp_all add: clients_get_Some)
  show ?thesis
  proof (cases "fmlookup logged device")
    case None
    then show ?thesis
      using Some L
      by (simp add: register_def Let_def dev_defs clients_at_devices clients_notify
          devices_size_pos)
  next
    case (Some existing)
    have "fmdrop device logged = fmempty \<Longrightarrow>
            fmupd device client fmempty = fmupd device client logged"
      by (metis fmupd_fmdrop)
    then show ?thesis
      using Some \<open>clients_get st uid' = Some logged\<close> L
      by (auto simp: register_def Let_def dev_defs clients_at_devices clients_notify
          clients_evict devices_size_pos fmupd_fmdrop)
  qed
qed

lemma ClientSignIn_found:
  assumes "fmlookup (clients st) id' = Some tempDs" and "fmlookup tempDs 0 = Some client"
  shows "ClientSignIn ks id' uid' device st =
     Inr (None, count_online (clients_delete id' 0 (SetID client uid' device
       (register ks uid' device client st))))"
proof -
  have "tempDs \<noteq> fmempty" using assms(2) by auto
  then have "clients_get st id' = Some tempDs" using assms(1) by (simp add: clients_get_Some)
  then show ?thesis
    using assms(2) \<open>tempDs \<noteq> fmempty\<close>
    by (simp add: ClientSignIn_def devices_size_0 devices_get_def)
qed

lemma clients_count_online: "clients (count_online st) = clients st"
  by (simp add: count_online_def Let_def)

lemma heap_count_online: "heap (count_online st) = heap st"
  by (simp add: count_online_def Let_def)


lemma ClientLogout_found:
  assumes "fmlookup (clients st) u = Some D" and "fmlookup D d = Some c"
  shows "ClientLogout u d st =
     (None, st\<lparr>clients := fmupd u (fmdrop d D) (clients st),
             clientOnline := clientOnline st - 1,
             heap := (heap st)(c := (heap st c)\<lparr>c_uid := temp_ids st (temp_n st), c_device := 0,
                        c_exited := True\<rparr>),
             temp_n := Suc (temp_n st),
             conn_stat := conn_stat st - 1\<rparr>)"
proof -
  have "D \<noteq> fmempty" using assms(2) by auto
  then have "clients_get st u = Some D" using assms(1) by (simp add: clients_get_Some)
  then show ?thesis
    using assms \<open>D \<noteq> fmempty\<close>
    by (simp add: ClientLogout_def devices_size_0 dev_defs coll_defs at_devices_def)
qed

lemma ClientLogout_absent: "slot st u d = None \<Longrightarrow> ClientLogout u d st = (None, st)"
  by (auto simp: ClientLogout_def slot_def clients_get_Some devices_get_def split: option.splits)

lemmas eval_defs = world_def NewDefaultManager_def ClientConnected_def ClientSignIn_def
  register_def clients_get_def clients_add_def clients_delete_def count_online_def
  at_devices_def evict_def pkg_EnqueueMessage_def EnqueueMessage_def deliver_def
  devices_foreach_def ClientLogout_def AddClient_def slot_def disconnect_def
  coll_defs dev_defs devices_size_0 devices_size_pos fmupd_not_empty Let_def fmdrop_fmupd word_sless_alt

lemma clients_world: "clients world = fmempty"
  by (simp add: world_def NewDefaultManager_def)

lemma clients_one_device: "clients one_device = fmupd 5001 (fmupd 1 0 fmempty) fmempty"
  by (simp add: one_device_def eval_defs)

lemma slot_clients_delete:
  "slot (clients_delete i k st) u d = (if i = u \<and> d = k then None else slot st u d)"
proof (cases "fmlookup (clients st) i")
  case None
  then show ?thesis by (auto simp: clients_delete_def slot_def)
next
  case (Some D)
  show ?thesis
  proof (cases "fmdrop k D = fmempty")
    case True
    then have "fmlookup (fmdrop k D) d = None" by simp
    then have "d \<noteq> k \<Longrightarrow> fmlookup D d = None" by (simp split: if_splits)
    then show ?thesis
      using Some True by (auto simp: clients_delete_def slot_def devices_size_0 devices_remove_def)
  next
    case False
    then show ?thesis
      using Some by (auto simp: clients_delete_def slot_def devices_size_0 devices_remove_def)
  qed
qed

lemma slot_register:
  "slot (register ks u dv c st) u' d' = (if u' = u \<and> d' = dv then Some c else slot st u' d')"
  by (auto simp: slot_def clients_register split: option.splits)

lemma slot_SetID: "slot (SetID c u d st) u' d' = slot st u' d'"
  by (simp add: slot_def SetID_def)

lemma slot_count_online: "slot (count_online st) u d = slot st u d"
  by (simp add: slot_def clients_count_online)

lemma queued_fields:
  assumes "queued a b"
  shows "c_uid (heap b c) = c_uid (heap a c)" and "c_device (heap b c) = c_device (heap a c)"
    and "c_exited (heap b c) = c_exited (heap a c)"
proof -
  have e: "(heap b c)\<lparr>c_queue := []\<rparr> = (heap a c)\<lparr>c_queue := []\<rparr>"
    using assms by (simp add: queued_def)
  show "c_uid (heap b c) = c_uid (heap a c)" using arg_cong [OF e, of c_uid] by simp
  show "c_device (heap b c) = c_device (heap a c)" using arg_cong [OF e, of c_device] by simp
  show "c_exited (heap b c) = c_exited (heap a c)" using arg_cong [OF e, of c_exited] by simp
qed

lemma queued_notify:
  "queued (st\<lparr>messageSent := messageSent st + 1\<rparr>) (snd (pkg_EnqueueMessage ks u msg st))"
  by (simp add: pkg_EnqueueMessage_def queued_EnqueueMessage)

lemma heap_at_devices: "heap (at_devices u f st) = heap st"
  by (simp add: at_devices_def split: option.splits)

lemma heap_evict:
  "heap (evict e u d st) e =
     (heap st e)\<lparr>c_uid := temp_ids st (temp_n st), c_device := 0,
                  c_queue := c_queue (heap st e) @
                    [NewMessage 0 ActionNotifyKickOut ''Your account is logged in on another device''],
                  c_exited := True\<rparr>"
  by (simp add: evict_def coll_defs heap_at_devices)

lemma register_evicted:
  assumes "slot st uid' device = Some existing"
  shows "c_uid (heap (register ks uid' device client st) existing) = temp_ids st (temp_n st)"
    and "c_device (heap (register ks uid' device client st) existing) = 0"
    and "c_exited (heap (register ks uid' device client st) existing)"
proof -
  obtain logged where g: "clients_get st uid' = Some logged"
    and l: "fmlookup logged device = Some existing"
    using assms by (auto simp: slot_Some)
  have ne: "logged \<noteq> fmempty" using l by auto
  define sa where "sa = evict existing uid' device st"
  define sb where "sb = (if (case fmlookup (clients sa) uid' of
                             Some l \<Rightarrow> devices_size l > 0 | None \<Rightarrow> False)
                       then snd (pkg_EnqueueMessage ks uid'
                              (NewMessage 0 ActionNotifyAccountLogin
                                 (''multi device login, device='' @ FormatInt device)) sa)
                       else sa)"
  have r: "register ks uid' device client st = at_devices uid' (devices_put device client) sb"
    using g l ne by (simp add: register_def devices_size_pos devices_get_def sa_def sb_def)
  have q: "queued (sa\<lparr>messageSent := messageSent sa + 1\<rparr>) sb \<or> sb = sa"
    using queued_notify [of sa ks uid'] by (auto simp: sb_def)
  have "c_uid (heap sb existing) = c_uid (heap sa existing) \<and>
        c_device (heap sb existing) = c_device (heap sa existing) \<and>
        c_exited (heap sb existing) = c_exited (heap sa existing)"
    using q queued_fields [of "sa\<lparr>messageSent := messageSent sa + 1\<rparr>" sb existing] by auto
  then show "c_uid (heap (register ks uid' device client st) existing) = temp_ids st (temp_n st)"
    and "c_device (heap (register ks uid' device client st) existing) = 0"
    and "c_exited (heap (register ks uid' device client st) existing)"
    by (simp_all add: r heap_at_devices sa_def heap_evict)
qed

lemma heap_clients_delete: "heap (clients_delete i k st) = heap st"
  by (simp add: clients_delete_def Let_def split: option.splits)

lemma ClientConnected_facts:
  "fst (ClientConnected conn st) = temp_ids st (temp_n st)"
  "clientOnline (snd (ClientConnected conn st)) = clientOnline st"
  "slot (snd (ClientConnected conn st)) (temp_ids st (temp_n st)) 0 = Some (next_client st)"
  by (simp_all add: ClientConnected_def coll_defs clients_add_def slot_def devices_put_def Let_def
      split: option.splits)

lemma ClientLogout_slot:
  assumes "slot st u d = Some c"
  shows "fst (ClientLogout u d st) = None"
    and "slot (snd (ClientLogout u d st)) u d = None"
    and "c_exited (heap (snd (ClientLogout u d st)) c)"
    and "clientOnline (snd (ClientLogout u d st)) = clientOnline st - 1"
proof -
  obtain D where D: "fmlookup (clients st) u = Some D" "fmlookup D d = Some c"
    using assms by (auto simp: slot_def split: option.splits)
  show "fst (ClientLogout u d st) = None"
    and "slot (snd (ClientLogout u d st)) u d = None"
    and "c_exited (heap (snd (ClientLogout u d st)) c)"
    and "clientOnline (snd (ClientLogout u d st)) = clientOnline st - 1"
    by (simp_all add: ClientLogout_found [OF D] slot_def)
qed


lemma two_devices_slots:
  "slot two_devices 9001 0 = None \<and> slot two_devices 5001 1 = Some 0 \<and> slot two_devices 5001 2 = Some 1"
  by (simp add: two_devices_def eval_defs)

lemma second_connected_slots:
  "slot second_connected 9001 0 = Some 1 \<and> slot second_connected 5001 1 = Some 0"
  by (simp add: second_connected_def eval_defs)

lemma one_device_slot: "slot one_device 5001 1 = Some 0"
  by (simp add: slot_def clients_one_device)

section \<open>The counters over a trace, and the result of a broadcast\<close>

text \<open>
  Over a trace that does not panic the online counter moves by the tally of the trace
  (as a 64-bit value). A broadcast hands nothing to a session that reports closed, and
  its result is the answer of the device visited last.
\<close>

lemma online_evict: "clientOnline (evict e u d st) = clientOnline st"
  by (simp add: evict_def coll_defs at_devices_def Let_def split: option.splits)

lemma online_notify: "clientOnline (snd (pkg_EnqueueMessage ks u msg st)) = clientOnline st"
  using queued_notify [of st ks u msg] by (simp add: queued_def)

lemma online_at_devices: "clientOnline (at_devices u f st) = clientOnline st"
  by (simp add: at_devices_def split: option.splits)

lemma online_clients_add: "clientOnline (clients_add u d c st) = clientOnline st"
  by (simp add: clients_add_def split: option.splits)

lemma online_register: "clientOnline (register ks u d c st) = clientOnline st"
  by (simp add: register_def Let_def online_evict online_notify online_at_devices
      online_clients_add split: option.splits)

lemma online_clients_delete: "clientOnline (clients_delete i k st) = clientOnline st"
  by (simp add: clients_delete_def Let_def split: option.splits)

lemma online_count_online: "clientOnline (count_online st) = clientOnline st + 1"
  by (simp add: count_online_def Let_def)

lemma online_apply_op:
  assumes "apply_op x st = Inr st'"
  shows "clientOnline st' = clientOnline st + word_of_int (step_count x st)"
proof (cases x)
  case (OpConnected conn)
  then show ?thesis using assms ClientConnected_facts(2) [of conn st] by auto
next
  case (OpAddClient uid cs)
  then show ?thesis using assms by (auto simp: AddClient_def Let_def online_clients_add)
next
  case (OpSignIn ks i u d)
  show ?thesis
  proof (cases "clients_get st i")
    case None
    then show ?thesis using assms OpSignIn by (simp add: ClientSignIn_def)
  next
    case (Some tempDs)
    then have t: "fmlookup (clients st) i = Some tempDs" "tempDs \<noteq> fmempty"
      by (simp_all add: clients_get_Some)
    show ?thesis
    proof (cases "fmlookup tempDs 0")
      case None
      then have "ClientSignIn ks i u d st = Inl NilDereference"
        using Some t by (simp add: ClientSignIn_def devices_size_0 devices_get_def)
      then show ?thesis using assms OpSignIn by simp
    next
      case (Some client)
      show ?thesis
        using assms OpSignIn \<open>clients_get st i = Some tempDs\<close>
        by (auto simp: ClientSignIn_found [OF t(1) Some] online_count_online
            online_clients_delete online_register SetID_def)
    qed
  qed
next
  case (OpLogout u d)
  show ?thesis
  proof (cases "slot st u d")
    case None
    then show ?thesis using assms OpLogout by (auto simp: ClientLogout_absent)
  next
    case (Some c)
    then show ?thesis using assms OpLogout ClientLogout_slot(4) [OF Some] by auto
  qed
next
  case (OpEnqueue ks uid device msg)
  then show ?thesis
    using assms queued_EnqueueMessage [of st ks uid device msg] by (auto simp: queued_def)
qed

lemma online_tally:
  "run ops st = Inr st' \<Longrightarrow> clientOnline st' = clientOnline st + word_of_int (tally ops st)"
proof (induction ops arbitrary: st)
  case Nil
  then show ?case by simp
next
  case (Cons x xs)
  then obtain s where s: "apply_op x st = Inr s" and r: "run xs s = Inr st'"
    by (auto split: sum.splits)
  show ?case
    using online_apply_op [OF s] Cons.IH [OF r] s by simp
qed

lemma closed_deliver:
  "Closed c (snd (deliver device msg k v (e, st))) = Closed c st"
  by (simp add: deliver_def coll_defs)

lemma broadcast_closed_untouched:
  assumes "Closed c st"
  shows "c_queue (heap (snd (devices_foreach ks ds (deliver 0 msg) (e, st))) c) = c_queue (heap st c)"
  using assms unfolding devices_foreach_def
proof (induction ks arbitrary: e st)
  case Nil
  then show ?case by simp
next
  case (Cons k ks)
  show ?case
  proof (cases "fmlookup ds k")
    case None
    then show ?thesis using Cons by simp
  next
    case (Some v)
    obtain e' st' where d: "deliver 0 msg k v (e, st) = (e', st')"
      by (cases "deliver 0 msg k v (e, st)")
    have "Closed c st'" using closed_deliver [of c 0 msg k v e st] d Cons.prems by simp
    moreover have "c_queue (heap st' c) = c_queue (heap st c)"
      using d Cons.prems by (auto simp: deliver_def coll_defs split: if_splits)
    ultimately show ?thesis using Cons.IH [of st' e'] Some d by simp
  qed
qed

lemma EnqueueMessage_closed_untouched:
  assumes "Closed c st"
  shows "c_queue (heap (snd (EnqueueMessage ks uid 0 msg st)) c) = c_queue (heap st c)"
proof -
  have "Closed c (st\<lparr>messageSent := messageSent st + 1\<rparr>)" using assms by (simp add: Closed_def)
  from broadcast_closed_untouched [OF this] show ?thesis
    by (simp add: EnqueueMessage_def Let_def split: option.splits)
qed

lemma broadcast_last:
  assumes "fmlookup ds k = Some v"
  shows "fst (devices_foreach (ks @ [k]) ds (deliver 0 msg) (e, st)) =
           (if Closed v st then Some ErrClientClosed else c_reply (heap st v))"
proof -
  obtain e' st' where f: "devices_foreach ks ds (deliver 0 msg) (e, st) = (e', st')"
    by (cases "devices_foreach ks ds (deliver 0 msg) (e, st)")
  have q: "queued st st'" using queued_foreach [of st ks ds 0 msg e] f by simp
  have "(heap st' v)\<lparr>c_queue := []\<rparr> = (heap st v)\<lparr>c_queue := []\<rparr>" using q by (simp add: queued_def)
  from arg_cong [OF this, of c_closed] arg_cong [OF this, of c_reply]
  have "c_closed (heap st' v) = c_closed (heap st v)" "c_reply (heap st' v) = c_reply (heap st v)"
    by simp_all
  then show ?thesis
    using f assms by (simp add: devices_foreach_def deliver_def coll_defs)
qed

section \<open>The claims\<close>

text \<open>
  C1, as stated: at most one session occupies a slot \<open>(userId, deviceId)\<close>, and when
  \<^verbatim>\<open>ClientSignIn(tempId, uid, device)\<close> finds a session registered at \<open>(uid, device)\<close>,
  that session is evicted and afterwards the slot holds the session taken from the
  temporary entry. A slot holds at most one session by construction (\<open>slot\<close> is a lookup
  in a map of maps). The second part fails when the slot signed in to is the temporary
  slot itself: with \<open>uid = tempId\<close> and \<open>device = 0\<close> the session found at \<open>(uid, device)\<close>
  is the one being signed in; it is removed, put back, and removed again by the clean-up
  of the temporary entry, so the slot is empty afterwards.
\<close>

theorem ClientSignIn_own_slot_counterexample:
  "slot connected 9000 0 = Some 0 \<and>
   \<not> isl (ClientSignIn [0] 9000 9000 0 connected) \<and>
   slot (snd (projr (ClientSignIn [0] 9000 9000 0 connected))) 9000 0 = None"
  by (simp add: connected_def eval_defs)

text \<open>
  C1, amended: when \<^verbatim>\<open>ClientSignIn(tempId, uid, device)\<close> finds at \<open>(uid, device)\<close> a session
  other than the one held by the temporary entry, the call returns no error, the slot
  \<open>(uid, device)\<close> holds the session of the temporary entry afterwards, and the session
  found there has the identity \<open>(t, 0)\<close>, \<open>t\<close> the temporary identifier generated by the
  call, and has been asked to terminate.
\<close>

theorem ClientSignIn_evicts:
  assumes "slot st id' 0 = Some client" and "slot st uid' device = Some existing"
    and "existing \<noteq> client"
  shows "\<exists>st'. ClientSignIn ks id' uid' device st = Inr (None, st') \<and>
           slot st' uid' device = Some client \<and>
           c_uid (heap st' existing) = temp_ids st (temp_n st) \<and>
           c_device (heap st' existing) = 0 \<and>
           c_exited (heap st' existing)"
proof -
  obtain tempDs where t: "fmlookup (clients st) id' = Some tempDs" "fmlookup tempDs 0 = Some client"
    using assms(1) by (auto simp: slot_def split: option.splits)
  have ne: "\<not> (id' = uid' \<and> device = 0)" using assms by auto
  define st' where "st' = count_online (clients_delete id' 0 (SetID client uid' device
       (register ks uid' device client st)))"
  have "ClientSignIn ks id' uid' device st = Inr (None, st')"
    unfolding st'_def by (rule ClientSignIn_found [OF t])
  moreover have "slot st' uid' device = Some client"
    using ne by (auto simp: st'_def slot_count_online slot_clients_delete slot_SetID slot_register)
  moreover have "heap st' existing = heap (register ks uid' device client st) existing"
    using assms(3) by (simp add: st'_def heap_count_online heap_clients_delete SetID_def)
  ultimately show ?thesis
    using register_evicted [OF assms(2), of ks client] by simp
qed

theorem ClientSignIn_evicts_witness:
  "slot second_connected 9001 0 = Some 1 \<and> slot second_connected 5001 1 = Some 0 \<and>
   (0::iclient) \<noteq> 1 \<and>
   (\<exists>st'. ClientSignIn [] 9001 5001 1 second_connected = Inr (None, st') \<and>
           slot st' 5001 1 = Some 1 \<and>
           c_uid (heap st' 0) = temp_ids second_connected (temp_n second_connected) \<and>
           c_device (heap st' 0) = 0 \<and>
           c_exited (heap st' 0))"
proof -
  have h1: "slot second_connected 9001 0 = Some 1" by (simp add: second_connected_slots)
  have h2: "slot second_connected 5001 1 = Some 0" by (simp add: second_connected_slots)
  have h3: "(0::iclient) \<noteq> 1" by simp
  show ?thesis using h1 h2 ClientSignIn_evicts [OF h1 h2 h3, of "[]"] by simp
qed

text \<open>
  C2: a broadcast \<^verbatim>\<open>EnqueueMessage(userId, 0, m)\<close> that meets a closed session returns
  \<^verbatim>\<open>ErrClientClosed\<close>, does not deliver to it, and keeps the deliveries made to the
  other devices. The closure assigns \<^verbatim>\<open>err\<close> at every device, so the value returned is
  that of the device visited last (\<open>broadcast_last\<close>): with device 1 closed and visited
  first, and device 2 open and visited second, the call returns nil. The closed session
  gets nothing, as in every broadcast (\<open>EnqueueMessage_closed_untouched\<close>), and the open
  one gets the message.
\<close>

theorem EnqueueMessage_closed_then_open:
  "slot (disconnect 0 two_devices) 5001 1 = Some 0 \<and>
   slot (disconnect 0 two_devices) 5001 2 = Some 1 \<and>
   range_order [1, 2] (the (clients_get (disconnect 0 two_devices) 5001)) \<and>
   Closed 0 (disconnect 0 two_devices) \<and> \<not> Closed 1 (disconnect 0 two_devices) \<and>
   fst (EnqueueMessage [1, 2] 5001 0 chat (disconnect 0 two_devices)) = None \<and>
   c_queue (heap (snd (EnqueueMessage [1, 2] 5001 0 chat (disconnect 0 two_devices))) 0) =
     c_queue (heap two_devices 0) \<and>
   c_queue (heap (snd (EnqueueMessage [1, 2] 5001 0 chat (disconnect 0 two_devices))) 1) =
     c_queue (heap two_devices 1) @ [chat]"
  by (simp add: two_devices_def eval_defs range_order_def finsert_commute)

text \<open>
  C3: after a trace of \<^verbatim>\<open>ClientConnected\<close>, \<^verbatim>\<open>AddClient\<close>, \<^verbatim>\<open>ClientSignIn\<close> and
  \<^verbatim>\<open>ClientLogout\<close> from a fresh manager, \<^verbatim>\<open>maxOnline\<close> is the highest value the online
  counter had after any prefix. \<^verbatim>\<open>AddClient\<close> adds one to the counter and leaves
  \<^verbatim>\<open>maxOnline\<close> alone: after the trace of one \<^verbatim>\<open>AddClient\<close> the counter is 1, its peak is
  1 and \<^verbatim>\<open>maxOnline\<close> is 0. The first half of the claim, that the counter ends at the
  tally of the trace, holds on every trace (\<open>online_tally\<close>).
\<close>

theorem AddClient_misses_maxOnline:
  "\<not> isl (run [OpAddClient 5001 0] world) \<and>
   sint (clientOnline (projr (run [OpAddClient 5001 0] world))) = 1 \<and>
   sint (maxOnline (projr (run [OpAddClient 5001 0] world))) = 0 \<and>
   peak [OpAddClient 5001 0] world = 1 \<and>
   tally [OpAddClient 5001 0] world = 1"
  by (simp add: eval_defs)

text \<open>
  C4: \<^verbatim>\<open>EnqueueMessage\<close> for a user with no registered device returns
  \<^verbatim>\<open>ErrClientNotExist\<close> and delivers to no session; so does \<^verbatim>\<open>EnqueueMessage\<close> for a
  device other than 0 that the user has not registered, whatever other devices the user
  has. In both cases the state after the call is the state before it with
  \<^verbatim>\<open>messageSent\<close> one higher: no session has received anything.
\<close>

theorem EnqueueMessage_not_exist:
  "(clients_get st uid = None \<longrightarrow>
      EnqueueMessage ks uid device msg st =
        (Some ErrClientNotExist, st\<lparr>messageSent := messageSent st + 1\<rparr>)) \<and>
   (device \<noteq> 0 \<and> slot st uid device = None \<longrightarrow>
      EnqueueMessage ks uid device msg st =
        (Some ErrClientNotExist, st\<lparr>messageSent := messageSent st + 1\<rparr>))"
  by (auto simp: EnqueueMessage_def Let_def clients_get_def slot_def devices_get_def
      split: option.splits)

theorem EnqueueMessage_not_exist_witness:
  "clients_get world 5001 = None \<and>
   EnqueueMessage [] 5001 0 (NewMessage 7 (ActionOther ''chat'') ''hi'') world =
     (Some ErrClientNotExist, world\<lparr>messageSent := messageSent world + 1\<rparr>) \<and>
   (2::int64) \<noteq> 0 \<and> slot one_device 5001 2 = None \<and> clients_get one_device 5001 \<noteq> None \<and>
   EnqueueMessage [1] 5001 2 (NewMessage 7 (ActionOther ''chat'') ''hi'') one_device =
     (Some ErrClientNotExist, one_device\<lparr>messageSent := messageSent one_device + 1\<rparr>)"
proof -
  have h1: "clients_get world 5001 = None" by (simp add: clients_get_def clients_world)
  have h2: "slot one_device 5001 2 = None" by (simp add: slot_def clients_one_device)
  have h3: "clients_get one_device 5001 \<noteq> None"
    by (simp add: clients_get_def clients_one_device devices_size_0 fmupd_not_empty)
  show ?thesis
    using h1 h2 h3
      EnqueueMessage_not_exist [where st = world and uid = 5001 and ks = "[]" and device = 0
        and msg = "NewMessage 7 (ActionOther ''chat'') ''hi''"]
      EnqueueMessage_not_exist [where st = one_device and uid = 5001 and ks = "[1]" and device = 2
        and msg = "NewMessage 7 (ActionOther ''chat'') ''hi''"]
    by simp
qed

text \<open>
  C5: when \<open>tempId\<close> does not resolve to a registered entry, \<^verbatim>\<open>ClientSignIn\<close> returns no
  error and changes nothing: the state after the call is the state before it.
\<close>

theorem ClientSignIn_unknown_temp:
  "clients_get st id' = None \<Longrightarrow> ClientSignIn ks id' uid' device st = Inr (None, st)"
  by (simp add: ClientSignIn_def)

theorem ClientSignIn_unknown_temp_witness:
  "clients_get world 9000 = None \<and> ClientSignIn [] 9000 5001 1 world = Inr (None, world)"
proof -
  have h: "clients_get world 9000 = None" by (simp add: clients_get_def clients_world)
  show ?thesis using h ClientSignIn_unknown_temp [OF h] by simp
qed

text \<open>
  C6: for a registered slot \<open>(userId, deviceId)\<close>, two calls of \<^verbatim>\<open>ClientLogout\<close> in a row
  return no error, the first takes one from the online counter, and the second changes
  nothing.
\<close>

theorem ClientLogout_twice:
  assumes "slot st uid' device = Some c"
  shows "(let (e1, st1) = ClientLogout uid' device st;
              (e2, st2) = ClientLogout uid' device st1
          in e1 = None \<and> e2 = None \<and> clientOnline st1 = clientOnline st - 1 \<and> st2 = st1)"
proof -
  obtain D where D: "fmlookup (clients st) uid' = Some D" "fmlookup D device = Some c"
    using assms by (auto simp: slot_def split: option.splits)
  obtain st1 where st1: "ClientLogout uid' device st = (None, st1)"
    and cl: "clients st1 = fmupd uid' (fmdrop device D) (clients st)"
    and on: "clientOnline st1 = clientOnline st - 1"
    using ClientLogout_found [OF D] by simp
  have "slot st1 uid' device = None" using cl by (simp add: slot_def)
  then have "ClientLogout uid' device st1 = (None, st1)" by (rule ClientLogout_absent)
  then show ?thesis using st1 on by simp
qed

theorem ClientLogout_twice_witness:
  "slot one_device 5001 1 = Some 0 \<and>
   (let (e1, st1) = ClientLogout 5001 1 one_device;
        (e2, st2) = ClientLogout 5001 1 st1
    in e1 = None \<and> e2 = None \<and> clientOnline st1 = clientOnline one_device - 1 \<and> st2 = st1)"
proof -
  have h: "slot one_device 5001 1 = Some 0" by (rule one_device_slot)
  show ?thesis using h ClientLogout_twice [OF h] by (rule conjI)
qed



text \<open>
  C8: no entry of the registry is an empty \<^verbatim>\<open>devices\<close> after any operation of the
  manager; removing the last device of a user removes the user's entry. \<^verbatim>\<open>clients.delete\<close>
  does so, but \<^verbatim>\<open>ClientLogout\<close> removes the device through the pointer it got from
  \<^verbatim>\<open>clients.get\<close> and leaves the entry: after the only device of user 5001 has logged
  out, the registry still has the entry 5001, with no device in it.
\<close>

theorem ClientLogout_leaves_empty_devices:
  "no_empty_devices one_device \<and> slot one_device 5001 1 = Some 0 \<and>
   fmlookup (clients (snd (ClientLogout 5001 1 one_device))) 5001 = Some fmempty \<and>
   clients_contains (snd (ClientLogout 5001 1 one_device)) 5001 \<and>
   \<not> no_empty_devices (snd (ClientLogout 5001 1 one_device))"
  by (simp add: one_device_def eval_defs no_empty_devices_def fmlookup_ran_iff clients_contains_def)

text \<open>
  C9: every call of \<^verbatim>\<open>EnqueueMessage\<close> adds exactly one to \<^verbatim>\<open>messageSent\<close>, whatever it
  returns, and changes neither the registry nor \<^verbatim>\<open>clientOnline\<close> nor \<^verbatim>\<open>maxOnline\<close>: on
  the \<^verbatim>\<open>ErrClientNotExist\<close> paths as on every other.
\<close>

theorem EnqueueMessage_counts:
  "messageSent (snd (EnqueueMessage ks uid device msg st)) = messageSent st + 1 \<and>
   clients (snd (EnqueueMessage ks uid device msg st)) = clients st \<and>
   clientOnline (snd (EnqueueMessage ks uid device msg st)) = clientOnline st \<and>
   maxOnline (snd (EnqueueMessage ks uid device msg st)) = maxOnline st"
  using queued_EnqueueMessage [of st ks uid device msg] by (simp add: queued_def)

text \<open>
  C10: \<^verbatim>\<open>ClientLogout\<close> does not tell temporary from permanent identifiers. After
  \<^verbatim>\<open>ClientConnected\<close> has returned \<open>t\<close> (the online counter unchanged, the new session in
  slot \<open>(t, 0)\<close>), \<^verbatim>\<open>ClientLogout(t, 0)\<close> returns no error, empties the slot, asks the
  session to terminate and takes one from the online counter; on a fresh manager the
  counter is then \<open>-1\<close>.
\<close>

theorem ClientLogout_temporary:
  "(let (t, st1) = ClientConnected conn st; (e, st2) = ClientLogout t 0 st1
    in clientOnline st1 = clientOnline st \<and> slot st1 t 0 = Some (next_client st) \<and>
       e = None \<and> slot st2 t 0 = None \<and> c_exited (heap st2 (next_client st)) \<and>
       clientOnline st2 = clientOnline st - 1) \<and>
   (let (t, st1) = ClientConnected conn (NewDefaultManager now st);
        (e, st2) = ClientLogout t 0 st1
    in sint (clientOnline st2) = - 1 \<and> sint (clientOnline st2) < 0)"
proof -
  have a: "clientOnline (NewDefaultManager now st) = 0" by (simp add: NewDefaultManager_def)
  show ?thesis
    using ClientConnected_facts [of conn st]
      ClientLogout_slot [OF ClientConnected_facts(3) [of conn st]]
      ClientConnected_facts [of conn "NewDefaultManager now st"]
      ClientLogout_slot [OF ClientConnected_facts(3) [of conn "NewDefaultManager now st"]]
    by (simp add: split_beta Let_def a)
qed

end
